theory Spec2Isabelle
  imports Main "HOL-Library.AList"
begin

section \<open>Python values, exceptions and results\<close>

text \<open>
  The component tag of django-cotton, \<^verbatim>\<open>django_cotton/templatetags/_component.py\<close>.
  Exceptions are values: a call returns \<open>Inr v\<close>, or \<open>Inl e\<close> when it raises \<open>e\<close>.
  Only the exception classes that the file names, or that the operations it calls
  raise, are listed.
\<close>

datatype exn =
    VariableDoesNotExist
  | ValueError
  | SyntaxError
  | IndexError
  | KeyError
  | TypeError
  | AttributeError
  | TemplateSyntaxError
  | TemplateDoesNotExist
  | CottonIncompleteDynamicComponentException

text \<open>
  The values an attribute or a context variable can hold. \<open>VExc\<close> is an exception
  object held as a value (not raised). \<open>VDict\<close> is a dict nobody mutates any more;
  \<open>VRef a\<close> is a reference to the mutable slot store at address \<open>a\<close> of the heap.
  A dict keeps its insertion order, so it is an association list, written to with
  \<open>AList.update\<close>: an existing key keeps its place, a new key goes to the end.
\<close>

datatype pyval =
    VNone
  | VBool bool
  | VInt int
  | VStr string
  | VList "pyval list"
  | VDict "(string \<times> pyval) list"
  | VExc exn string
  | VRef nat

type_synonym dict = "(string \<times> pyval) list"

text \<open>
  The side-channel slot store: component key to the named slots captured for it. The
  dict bound to \<^verbatim>\<open>cotton_named_slots\<close> is shared by reference between the context, its
  flattened copy and the local variable of \<^verbatim>\<open>render\<close>, and is written in place, so it
  lives in a heap.
\<close>

type_synonym slot_store = "(string \<times> dict) list"

type_synonym heap = "nat \<Rightarrow> slot_store"

definition dquote :: char where
  "dquote = CHR 0x22"

definition squote :: char where
  "squote = CHR 0x27"

subsection \<open>The operations of Python's str and dict that the file uses\<close>

text \<open>\<^verbatim>\<open>s.split(c)\<close> for a one-character separator: every occurrence splits.\<close>

fun split_on :: "char \<Rightarrow> string \<Rightarrow> string list" where
  "split_on c [] = [[]]"
| "split_on c (x # xs) =
     (if x = c then [] # split_on c xs
      else (case split_on c xs of
              [] \<Rightarrow> [[x]]
            | p # ps \<Rightarrow> (x # p) # ps))"

text \<open>\<^verbatim>\<open>s.replace(a, b)\<close> for one-character \<open>a\<close> and \<open>b\<close>.\<close>

definition replace_char :: "char \<Rightarrow> char \<Rightarrow> string \<Rightarrow> string" where
  "replace_char a b s = map (\<lambda>c. if c = a then b else c) s"

text \<open>\<^verbatim>\<open>s.lstrip(":")\<close>.\<close>

definition lstrip_colon :: "string \<Rightarrow> string" where
  "lstrip_colon s = dropWhile (\<lambda>c. c = CHR '':'') s"

text \<open>\<^verbatim>\<open>s.startswith(":")\<close>.\<close>

definition startswith_colon :: "string \<Rightarrow> bool" where
  "startswith_colon s = (case s of [] \<Rightarrow> False | c # _ \<Rightarrow> c = CHR '':'')"

text \<open>\<^verbatim>\<open>sep.join(xs)\<close>.\<close>

fun join :: "string \<Rightarrow> string list \<Rightarrow> string" where
  "join sep [] = []"
| "join sep [x] = x"
| "join sep (x # y # ys) = x @ sep @ join sep (y # ys)"

text \<open>\<^verbatim>\<open>d.update(e)\<close>: the items of \<open>e\<close> are stored into \<open>d\<close> in their order.\<close>

definition dict_update :: "('k \<times> 'v) list \<Rightarrow> ('k \<times> 'v) list \<Rightarrow> ('k \<times> 'v) list" where
  "dict_update d e = fold (\<lambda>(k, v) acc. AList.update k v acc) e d"

subsection \<open>The host framework\<close>

text \<open>
  What the file calls and does not define, as parameters; none of it is assumed to
  succeed:
  \<^item> \<open>variable_resolve\<close>: \<^verbatim>\<open>template.Variable(value).resolve(context)\<close>;
  \<^item> \<open>template_render\<close>: \<^verbatim>\<open>Template(value).render(Context(context))\<close>;
  \<^item> \<open>literal_eval\<close>: \<^verbatim>\<open>ast.literal_eval(value)\<close>;
  \<^item> \<open>ensure_quoted\<close>: \<^verbatim>\<open>django_cotton.utils.ensure_quoted\<close> inside the f-string of
    line 72, so its result already is a string;
  \<^item> \<open>cotton_dir\<close>: \<^verbatim>\<open>settings.COTTON_DIR\<close>, \<open>None\<close> when the setting is absent;
  \<^item> \<open>get_template_render\<close>: \<^verbatim>\<open>get_template(template_path).render(local_ctx)\<close>.
  A context is the dict that \<^verbatim>\<open>context.flatten()\<close> gives; the heap comes along, since
  a lookup may follow a reference.
\<close>

record host =
  variable_resolve :: "string \<Rightarrow> dict \<Rightarrow> heap \<Rightarrow> exn + pyval"
  template_render :: "string \<Rightarrow> dict \<Rightarrow> heap \<Rightarrow> exn + string"
  literal_eval :: "string \<Rightarrow> exn + pyval"
  ensure_quoted :: "pyval \<Rightarrow> string"
  cotton_dir :: "string option"
  get_template_render :: "pyval \<Rightarrow> dict \<Rightarrow> heap \<Rightarrow> exn + string"

section \<open>The dynamic attribute evaluator\<close>

text \<open>
  \<^verbatim>\<open>_parse_template_string\<close> (lines 153-157): \<^verbatim>\<open>ValueError\<close> and \<^verbatim>\<open>SyntaxError\<close> are
  caught and the value is returned as it came; any other exception propagates.
\<close>

definition parse_template_string :: "host \<Rightarrow> string \<Rightarrow> dict \<Rightarrow> heap \<Rightarrow> exn + string" where
  "parse_template_string h value context hp =
     (case template_render h value context hp of
        Inr s \<Rightarrow> Inr s
      | Inl e \<Rightarrow> if e = ValueError \<or> e = SyntaxError then Inr value else Inl e)"

text \<open>
  \<^verbatim>\<open>_process_dynamic_attribute\<close> (lines 108-129). The first \<^verbatim>\<open>try\<close> catches
  \<^verbatim>\<open>template.VariableDoesNotExist\<close> only; the last one \<^verbatim>\<open>ValueError\<close> and
  \<^verbatim>\<open>SyntaxError\<close>.
\<close>

definition process_dynamic_attribute :: "host \<Rightarrow> string \<Rightarrow> dict \<Rightarrow> heap \<Rightarrow> exn + pyval" where
  "process_dynamic_attribute h value context hp =
     (case variable_resolve h value context hp of
        Inr v \<Rightarrow> Inr v
      | Inl e \<Rightarrow>
          if e \<noteq> VariableDoesNotExist then Inl e
          else if value = [] then Inr (VBool True)
          else (case parse_template_string h value context hp of
                  Inl e' \<Rightarrow> Inl e'
                | Inr s \<Rightarrow>
                    (case literal_eval h s of
                       Inr v \<Rightarrow> Inr v
                     | Inl e'' \<Rightarrow>
                         if e'' = ValueError \<or> e'' = SyntaxError then Inr (VStr s)
                         else Inl e'')))"

section \<open>The tag parser\<close>

text \<open>
  The node that \<^verbatim>\<open>cotton_component\<close> builds (lines 43-48). Its body renders against
  the context and may write to it and to the slot store, as the slot tags inside it do.
\<close>

record node =
  nodelist :: "dict \<Rightarrow> heap \<Rightarrow> exn + (string \<times> dict \<times> heap)"
  component_path :: string
  component_key :: string
  kwargs :: "(string \<times> string) list"

text \<open>
  Lines 28-33, one bit: \<^verbatim>\<open>key, value = bit.split("=")\<close> unpacks a list of exactly
  two parts; with one part or with three and more the unpacking raises \<^verbatim>\<open>ValueError\<close>,
  which is caught, and the whole bit is the key.
\<close>

definition parse_bit :: "string \<Rightarrow> string \<times> string" where
  "parse_bit b =
     (case split_on CHR ''='' b of
        [key, value] \<Rightarrow> (key, value)
      | _ \<Rightarrow> (b, []))"

text \<open>Lines 26-35: \<^verbatim>\<open>kwargs[key] = value\<close> for every bit in turn.\<close>

definition parse_kwargs :: "string list \<Rightarrow> (string \<times> string) list" where
  "parse_kwargs bits =
     fold (\<lambda>b acc. AList.update (fst (parse_bit b)) (snd (parse_bit b)) acc) bits []"

text \<open>
  \<^verbatim>\<open>cotton_component\<close> (lines 16-40) on the bits that \<^verbatim>\<open>token.split_contents()\<close>
  gave; \<open>nl\<close> is the body the parser read up to \<^verbatim>\<open>end_cotton_component\<close>.
  \<^verbatim>\<open>bits[1]\<close> and \<^verbatim>\<open>bits[2]\<close> raise \<^verbatim>\<open>IndexError\<close> on a shorter list.
\<close>

definition cotton_component ::
  "(dict \<Rightarrow> heap \<Rightarrow> exn + (string \<times> dict \<times> heap)) \<Rightarrow> string list \<Rightarrow> exn + node" where
  "cotton_component nl bits =
     (if length bits < 3 then Inl IndexError
      else Inr \<lparr>nodelist = nl, component_path = bits ! 1, component_key = bits ! 2,
                kwargs = parse_kwargs (drop 3 bits)\<rparr>)"

section \<open>Building the attributes\<close>

text \<open>
  Lines 94-96: the quotes go only when the value is not empty, its first and last
  characters are equal and are a quote. \<^verbatim>\<open>value[1:-1]\<close> of a one-character string is
  empty.
\<close>

definition strip_quotes :: "string \<Rightarrow> string" where
  "strip_quotes value =
     (if value \<noteq> [] \<and> hd value = last value \<and> (hd value = dquote \<or> hd value = squote)
      then butlast (tl value) else value)"

text \<open>\<^verbatim>\<open>_build_attrs\<close> (lines 87-106): the loop over \<^verbatim>\<open>self.kwargs.items()\<close>.\<close>

fun build_attrs_loop ::
  "host \<Rightarrow> dict \<Rightarrow> heap \<Rightarrow> (string \<times> string) list \<Rightarrow> dict \<Rightarrow> exn + dict" where
  "build_attrs_loop h context hp [] attrs = Inr attrs"
| "build_attrs_loop h context hp ((key, value) # rest) attrs =
     (if startswith_colon key then
        (case process_dynamic_attribute h (strip_quotes value) context hp of
           Inl e \<Rightarrow> Inl e
         | Inr v \<Rightarrow> build_attrs_loop h context hp rest (AList.update (tl key) v attrs))
      else if strip_quotes value = [] then
        build_attrs_loop h context hp rest (AList.update key (VBool True) attrs)
      else
        build_attrs_loop h context hp rest (AList.update key (VStr (strip_quotes value)) attrs))"

definition build_attrs :: "host \<Rightarrow> node \<Rightarrow> dict \<Rightarrow> heap \<Rightarrow> exn + dict" where
  "build_attrs h self context hp = build_attrs_loop h context hp (kwargs self) []"

section \<open>The template path\<close>

definition incomplete_message :: string where
  "incomplete_message =
     ''Cotton error: '' @ [dquote] @ ''<c-component>'' @ [dquote] @
     '' should be accompanied by an '' @ [dquote] @ ''is'' @ [dquote] @ '' attribute.''"

text \<open>Line 147: dots become slashes, then dashes become underscores.\<close>

definition component_tpl_path :: "string \<Rightarrow> string" where
  "component_tpl_path p = replace_char CHR ''-'' CHR ''_'' (replace_char CHR ''.'' CHR ''/'' p)"

text \<open>Lines 149-151.\<close>

definition format_path :: "host \<Rightarrow> string \<Rightarrow> string" where
  "format_path h p =
     (case cotton_dir h of Some d \<Rightarrow> d | None \<Rightarrow> ''cotton'') @ ''/'' @ component_tpl_path p @ ''.html''"

text \<open>
  \<^verbatim>\<open>_generate_component_template_path\<close> (lines 131-151). Without an \<^verbatim>\<open>is\<close> attribute
  the exception is built and returned, not raised (line 141). An \<^verbatim>\<open>is\<close> that is no
  string has no \<^verbatim>\<open>replace\<close>: line 147 raises \<^verbatim>\<open>AttributeError\<close>.
\<close>

definition generate_component_template_path :: "host \<Rightarrow> node \<Rightarrow> dict \<Rightarrow> exn + pyval" where
  "generate_component_template_path h self attrs =
     (if component_path self = ''component'' then
        (case map_of attrs ''is'' of
           None \<Rightarrow> Inr (VExc CottonIncompleteDynamicComponentException incomplete_message)
         | Some (VStr p) \<Rightarrow> Inr (VStr (format_path h p))
         | Some _ \<Rightarrow> Inl AttributeError)
      else Inr (VStr (format_path h (component_path self))))"

section \<open>Rendering the node\<close>

text \<open>
  Line 58, \<^verbatim>\<open>context.get("cotton_named_slots", {})\<close>: the address of the store the
  context holds, or \<open>None\<close> for the fresh dict of the default, which nothing else
  refers to. The store is written in place (line 81, and by the slot tags), so the
  context holds it by reference; on any other value line 59 cannot call \<^verbatim>\<open>get\<close>.
\<close>

definition slots_object :: "dict \<Rightarrow> exn + nat option" where
  "slots_object context =
     (case map_of context ''cotton_named_slots'' of
        None \<Rightarrow> Inr None
      | Some (VRef a) \<Rightarrow> Inr (Some a)
      | Some _ \<Rightarrow> Inl AttributeError)"

definition all_named_slots :: "heap \<Rightarrow> nat option \<Rightarrow> slot_store" where
  "all_named_slots hp r = (case r of None \<Rightarrow> [] | Some a \<Rightarrow> hp a)"

text \<open>Line 59, \<^verbatim>\<open>all_named_slots_ctx.get(self.component_key, {})\<close>.\<close>

definition local_named_slots :: "slot_store \<Rightarrow> string \<Rightarrow> dict" where
  "local_named_slots all_slots key = (case map_of all_slots key of None \<Rightarrow> [] | Some d \<Rightarrow> d)"

text \<open>
  Line 81, \<^verbatim>\<open>all_named_slots_ctx[self.component_key] = {}\<close>: a write to the shared
  store, or to the fresh dict of line 58, which is then dropped.
\<close>

definition reset_slots :: "heap \<Rightarrow> nat option \<Rightarrow> string \<Rightarrow> heap" where
  "reset_slots hp r key =
     (case r of None \<Rightarrow> hp | Some a \<Rightarrow> hp(a := AList.update key [] (hp a)))"

text \<open>
  Line 64, \<^verbatim>\<open>for expression_attr in ...\<close>: what Python iterates over. A list gives
  its items, a str its characters, a dict its keys; the other values are not iterable.
\<close>

definition iterate :: "heap \<Rightarrow> pyval \<Rightarrow> exn + pyval list" where
  "iterate hp v =
     (case v of
        VList xs \<Rightarrow> Inr xs
      | VStr s \<Rightarrow> Inr (map (\<lambda>c. VStr [c]) s)
      | VDict d \<Rightarrow> Inr (map (\<lambda>kv. VStr (fst kv)) d)
      | VRef a \<Rightarrow> Inr (map (\<lambda>kv. VStr (fst kv)) (hp a))
      | _ \<Rightarrow> Inl TypeError)"

text \<open>
  Lines 64-70. \<^verbatim>\<open>local_named_slots_ctx[expression_attr]\<close> raises \<^verbatim>\<open>KeyError\<close> on a
  missing key and \<^verbatim>\<open>TypeError\<close> on an unhashable one; \<^verbatim>\<open>template.Variable\<close> raises
  \<^verbatim>\<open>TypeError\<close> on a value that is no string. The key loses all its leading colons.
\<close>

fun expression_attrs_loop ::
  "host \<Rightarrow> dict \<Rightarrow> dict \<Rightarrow> heap \<Rightarrow> pyval list \<Rightarrow> dict \<Rightarrow> exn + dict" where
  "expression_attrs_loop h local_named local_ctx hp [] attrs = Inr attrs"
| "expression_attrs_loop h local_named local_ctx hp (item # rest) attrs =
     (case item of
        VStr expression_attr \<Rightarrow>
          (case map_of local_named expression_attr of
             None \<Rightarrow> Inl KeyError
           | Some (VStr value) \<Rightarrow>
               (case process_dynamic_attribute h value local_ctx hp of
                  Inl e \<Rightarrow> Inl e
                | Inr evaluated \<Rightarrow>
                    expression_attrs_loop h local_named local_ctx hp rest
                      (AList.update (lstrip_colon expression_attr) evaluated attrs))
           | Some _ \<Rightarrow> Inl TypeError)
      | VList _ \<Rightarrow> Inl TypeError
      | VDict _ \<Rightarrow> Inl TypeError
      | VRef _ \<Rightarrow> Inl TypeError
      | _ \<Rightarrow> Inl KeyError)"

text \<open>Lines 63-70.\<close>

definition expression_attrs :: "host \<Rightarrow> dict \<Rightarrow> dict \<Rightarrow> heap \<Rightarrow> dict \<Rightarrow> exn + dict" where
  "expression_attrs h local_named local_ctx hp attrs =
     (case map_of local_named ''ctn_template_expression_attrs'' of
        None \<Rightarrow> Inr attrs
      | Some names \<Rightarrow>
          (case iterate hp names of
             Inl e \<Rightarrow> Inl e
           | Inr items \<Rightarrow> expression_attrs_loop h local_named local_ctx hp items attrs))"

text \<open>Line 72.\<close>

definition attrs_string :: "host \<Rightarrow> dict \<Rightarrow> string" where
  "attrs_string h attrs =
     join '' '' (map (\<lambda>kv. fst kv @ ''='' @ ensure_quoted h (snd kv)) attrs)"

text \<open>Line 77, the dict comprehension: a later key that normalises to an earlier one overwrites it.\<close>

definition callable_attrs :: "dict \<Rightarrow> dict" where
  "callable_attrs attrs =
     fold (\<lambda>kv acc. AList.update (replace_char CHR ''-'' CHR ''_'' (fst kv)) (snd kv) acc) attrs []"

text \<open>
  What lines 51-83 of \<^verbatim>\<open>render\<close> hand to line 85: the template path, the local
  context, and the context and the heap as the body and line 81 left them; with them
  the attribute mapping that line 74 binds to \<^verbatim>\<open>attrs_dict\<close>.
\<close>

record prepared =
  template_path :: pyval
  local_ctx :: dict
  attrs_dict :: dict
  ctx_after :: dict
  heap_after :: heap

text \<open>
  Lines 51-83. \<^verbatim>\<open>context.flatten()\<close> is taken before the body renders; the slot store
  is read after it.
\<close>

definition render_prepare :: "host \<Rightarrow> node \<Rightarrow> dict \<Rightarrow> heap \<Rightarrow> exn + prepared" where
  "render_prepare h self context hp =
     (case build_attrs h self context hp of
        Inl e \<Rightarrow> Inl e
      | Inr attrs \<Rightarrow>
     (case nodelist self context hp of
        Inl e \<Rightarrow> Inl e
      | Inr (slot, context1, hp1) \<Rightarrow>
     (case slots_object context1 of
        Inl e \<Rightarrow> Inl e
      | Inr r \<Rightarrow>
     (let local_named = local_named_slots (all_named_slots hp1 r) (component_key self);
          local1 = dict_update (AList.update ''slot'' (VStr slot) context) local_named
      in
     (case expression_attrs h local_named local1 hp1 attrs of
        Inl e \<Rightarrow> Inl e
      | Inr attrs1 \<Rightarrow>
     (let local2 = AList.update ''attrs_dict'' (VDict attrs1)
                     (AList.update ''attrs'' (VStr (attrs_string h attrs1)) local1);
          attrs2 = callable_attrs attrs1;
          local3 = dict_update local2 attrs2;
          hp2 = reset_slots hp1 r (component_key self)
      in
     (case generate_component_template_path h self attrs2 of
        Inl e \<Rightarrow> Inl e
      | Inr tp \<Rightarrow>
          Inr \<lparr>template_path = tp, local_ctx = local3, attrs_dict = attrs1,
               ctx_after = context1, heap_after = hp2\<rparr>)))))))"

text \<open>\<^verbatim>\<open>render\<close> (lines 50-85).\<close>

definition render :: "host \<Rightarrow> node \<Rightarrow> dict \<Rightarrow> heap \<Rightarrow> exn + string" where
  "render h self context hp =
     (case render_prepare h self context hp of
        Inl e \<Rightarrow> Inl e
      | Inr p \<Rightarrow> get_template_render h (template_path p) (local_ctx p) (heap_after p))"

text \<open>
  Lines 58-59 as the next node with the same key runs them: the named slots it would
  consume from a context and a heap.
\<close>

definition consumed_slots :: "dict \<Rightarrow> heap \<Rightarrow> string \<Rightarrow> exn + dict" where
  "consumed_slots context hp key =
     (case slots_object context of
        Inl e \<Rightarrow> Inl e
      | Inr r \<Rightarrow> Inr (local_named_slots (all_named_slots hp r) key))"

section \<open>A host to run the model on\<close>

text \<open>
  The theorems below hold for every host. To evaluate the model on concrete inputs, here
  is one host: the framework on a small fragment of its inputs, which is all the
  examples use.
  \<^item> \<^verbatim>\<open>Variable(var)\<close>: on the empty string the constructor reads \<^verbatim>\<open>var[0]\<close> and raises
    \<^verbatim>\<open>IndexError\<close>; a string of decimal digits is that integer; a name bound in the
    context resolves to its value; another name raises \<^verbatim>\<open>VariableDoesNotExist\<close>.
    Signs, floats, quoted literals, dotted and underscore-led names are outside the
    fragment.
  \<^item> \<^verbatim>\<open>Template(value).render\<close>: text with variable tags in double braces; a tag with a
    bound name gives the value's \<^verbatim>\<open>str\<close>, HTML-escaped, an unbound name gives the empty
    string, an empty tag raises \<^verbatim>\<open>TemplateSyntaxError\<close>, an unclosed tag is text. Block
    tags, comments and filters are outside the fragment.
  \<^item> \<^verbatim>\<open>ast.literal_eval\<close>: a string of decimal digits with no leading zero, \<^verbatim>\<open>True\<close>,
    \<^verbatim>\<open>False\<close> and \<^verbatim>\<open>None\<close> are literals; a word, or words joined by dashes, is not
    (\<^verbatim>\<open>ValueError\<close>). Other literals are outside the fragment.
\<close>

definition is_digit :: "char \<Rightarrow> bool" where
  "is_digit c = (c \<in> set ''0123456789'')"

definition is_decimal :: "string \<Rightarrow> bool" where
  "is_decimal s = (s \<noteq> [] \<and> list_all is_digit s)"

definition decimal_value :: "string \<Rightarrow> nat" where
  "decimal_value s = fold (\<lambda>c n. 10 * n + (of_char c - 48)) s 0"

function digits_of :: "nat \<Rightarrow> string" where
  "digits_of n =
     (if n < 10 then [char_of (48 + n)] else digits_of (n div 10) @ [char_of (48 + n mod 10)])"
  by pat_completeness auto
termination
  by (relation "measure id") auto

declare digits_of.simps [simp del]

text \<open>\<^verbatim>\<open>str(v)\<close>, for the values of the fragment.\<close>

definition py_str :: "pyval \<Rightarrow> string" where
  "py_str v =
     (case v of
        VNone \<Rightarrow> ''None''
      | VBool b \<Rightarrow> (if b then ''True'' else ''False'')
      | VInt i \<Rightarrow> (if i < 0 then ''-'' @ digits_of (nat (- i)) else digits_of (nat i))
      | VStr s \<Rightarrow> s
      | _ \<Rightarrow> ''<object>'')"

definition html_escape :: "string \<Rightarrow> string" where
  "html_escape s =
     concat (map (\<lambda>c. if c = CHR ''&'' then ''&amp;''
                       else if c = CHR ''<'' then ''&lt;''
                       else if c = CHR ''>'' then ''&gt;''
                       else if c = dquote then ''&quot;''
                       else if c = squote then ''&#x27;''
                       else [c]) s)"

definition strip_spaces :: "string \<Rightarrow> string" where
  "strip_spaces s =
     rev (dropWhile (\<lambda>c. c = CHR '' '') (rev (dropWhile (\<lambda>c. c = CHR '' '') s)))"

definition sample_variable_resolve :: "string \<Rightarrow> dict \<Rightarrow> heap \<Rightarrow> exn + pyval" where
  "sample_variable_resolve var context hp =
     (if var = [] then Inl IndexError
      else if is_decimal var then Inr (VInt (int (decimal_value var)))
      else (case map_of context var of
              None \<Rightarrow> Inl VariableDoesNotExist
            | Some v \<Rightarrow> Inr v))"

text \<open>
  The second argument is \<open>None\<close> outside a variable tag and \<open>Some acc\<close> inside one,
  \<open>acc\<close> being what was read of the tag, reversed.
\<close>

fun interpolate :: "dict \<Rightarrow> string option \<Rightarrow> string \<Rightarrow> exn + string" where
  "interpolate context None [] = Inr []"
| "interpolate context None [c] = Inr [c]"
| "interpolate context None (c # d # ds) =
     (if c = CHR ''{'' \<and> d = CHR ''{'' then interpolate context (Some []) ds
      else (case interpolate context None (d # ds) of
              Inl e \<Rightarrow> Inl e
            | Inr r \<Rightarrow> Inr (c # r)))"
| "interpolate context (Some acc) [] = Inr (''{{'' @ rev acc)"
| "interpolate context (Some acc) [c] = Inr (''{{'' @ rev (c # acc))"
| "interpolate context (Some acc) (c # d # ds) =
     (if c = CHR ''}'' \<and> d = CHR ''}'' then
        (if strip_spaces (rev acc) = [] then Inl TemplateSyntaxError
         else (case interpolate context None ds of
                 Inl e \<Rightarrow> Inl e
               | Inr r \<Rightarrow>
                   Inr ((case map_of context (strip_spaces (rev acc)) of
                           None \<Rightarrow> []
                         | Some v \<Rightarrow> html_escape (py_str v)) @ r)))
      else interpolate context (Some (c # acc)) (d # ds))"

definition sample_template_render :: "string \<Rightarrow> dict \<Rightarrow> heap \<Rightarrow> exn + string" where
  "sample_template_render value context hp = interpolate context None value"

definition sample_literal_eval :: "string \<Rightarrow> exn + pyval" where
  "sample_literal_eval s =
     (if is_decimal s \<and> (length s = 1 \<or> hd s \<noteq> CHR ''0'') then Inr (VInt (int (decimal_value s)))
      else if s = ''True'' then Inr (VBool True)
      else if s = ''False'' then Inr (VBool False)
      else if s = ''None'' then Inr VNone
      else Inl ValueError)"

text \<open>
  Modelled from the spec: \<^verbatim>\<open>ensure_quoted\<close> of \<^verbatim>\<open>django_cotton.utils\<close> is not among
  the sources. The spec calls its result the quoted value of a \<open>key=quoted-value\<close>
  pair: the value's text between double quotes, a string that already stands between
  double quotes being left as it is.
\<close>

definition sample_ensure_quoted :: "pyval \<Rightarrow> string" where
  "sample_ensure_quoted v =
     (case v of
        VStr s \<Rightarrow> if s \<noteq> [] \<and> hd s = dquote \<and> last s = dquote then s
                  else [dquote] @ s @ [dquote]
      | _ \<Rightarrow> [dquote] @ py_str v @ [dquote])"

text \<open>The loader of the sample host finds every template whose path is a string.\<close>

definition sample_get_template_render :: "pyval \<Rightarrow> dict \<Rightarrow> heap \<Rightarrow> exn + string" where
  "sample_get_template_render tp local_context hp =
     (case tp of
        VStr path \<Rightarrow> Inr (''<!-- '' @ path @ '' -->'')
      | _ \<Rightarrow> Inl TemplateDoesNotExist)"

definition sample_host :: host where
  "sample_host =
     \<lparr>variable_resolve = sample_variable_resolve,
      template_render = sample_template_render,
      literal_eval = sample_literal_eval,
      ensure_quoted = sample_ensure_quoted,
      cotton_dir = None,
      get_template_render = sample_get_template_render\<rparr>"

text \<open>A body with no slot tag: it renders to a fixed text and writes nothing.\<close>

definition plain_body :: "string \<Rightarrow> dict \<Rightarrow> heap \<Rightarrow> exn + (string \<times> dict \<times> heap)" where
  "plain_body out context hp = Inr (out, context, hp)"

text \<open>
  A body with one slot tag: it renders to a fixed text and stores \<open>content\<close> under the slot
  \<open>name\<close> for the component \<open>key\<close>, in the store at address \<open>a\<close>.
\<close>

definition slot_body ::
  "nat \<Rightarrow> string \<Rightarrow> string \<Rightarrow> pyval \<Rightarrow> string \<Rightarrow> dict \<Rightarrow> heap \<Rightarrow> exn + (string \<times> dict \<times> heap)" where
  "slot_body a key name content out context hp =
     Inr (out, context,
          hp(a := AList.update key (AList.update name content (local_named_slots (hp a) key)) (hp a)))"

text \<open>A value as the tag's source writes it, between double quotes.\<close>

definition quoted :: "string \<Rightarrow> string" where
  "quoted s = dquote # s @ [dquote]"

section \<open>Reading the attrs string back\<close>

text \<open>
  Modelled from the spec: its round-trip property re-parses the \<open>attrs\<close> string into
  \<open>key=value\<close> pairs, and no parser of that string is among the sources. The string is
  space-joined \<open>key=quoted-value\<close> pairs: the pairs are cut at the spaces that stand
  outside double quotes, and the key of a pair is what stands before its first \<open>=\<close>.
  In \<open>attr_tokens\<close> the flag says whether a double quote is open, and the second
  argument is the pair read so far, reversed.
\<close>

fun attr_tokens :: "bool \<Rightarrow> string \<Rightarrow> string \<Rightarrow> string list" where
  "attr_tokens q cur [] = (if cur = [] then [] else [rev cur])"
| "attr_tokens q cur (c # cs) =
     (if c = dquote then attr_tokens (\<not> q) (c # cur) cs
      else if c = CHR '' '' \<and> \<not> q then
        (if cur = [] then attr_tokens q [] cs else rev cur # attr_tokens q [] cs)
      else attr_tokens q (c # cur) cs)"

definition reparse_attrs :: "string \<Rightarrow> (string \<times> string) list" where
  "reparse_attrs s =
     map (\<lambda>t. (takeWhile (\<lambda>c. c \<noteq> CHR ''='') t, drop 1 (dropWhile (\<lambda>c. c \<noteq> CHR ''='') t)))
       (attr_tokens False [] s)"

text \<open>A quoted value: text with no double quote in it, between two double quotes.\<close>

definition well_quoted :: "string \<Rightarrow> bool" where
  "well_quoted t =
     (2 \<le> length t \<and> hd t = dquote \<and> last t = dquote \<and> dquote \<notin> set (butlast (tl t)))"

section \<open>Properties of the dynamic attribute evaluator\<close>

lemmas sample_defs =
  sample_host_def sample_variable_resolve_def sample_template_render_def
  sample_literal_eval_def sample_ensure_quoted_def sample_get_template_render_def
  is_decimal_def is_digit_def decimal_value_def py_str_def html_escape_def
  strip_spaces_def dquote_def squote_def

lemmas model_defs =
  process_dynamic_attribute_def parse_template_string_def strip_quotes_def
  startswith_colon_def lstrip_colon_def replace_char_def

lemma strip_quotes_quoted [simp]: "strip_quotes (quoted s) = s"
  by (simp add: strip_quotes_def quoted_def)

text \<open>
  C1. A dynamic attribute whose raw string resolves as a variable of the render context
  gets exactly the value the context gives, of whatever type, never turned into a
  string; and the lookup comes first: whatever the template renderer \<open>t\<close> and the
  literal parser \<open>l\<close> would make of the string, the result is the context's value. So
  the attribute \<open>:key\<close> is stored under \<open>key\<close> with that value.
\<close>

theorem C1_context_variable_wins:
  assumes "variable_resolve h value context hp = Inr v"
  shows "process_dynamic_attribute h value context hp = Inr v
       \<and> process_dynamic_attribute (h\<lparr>template_render := t, literal_eval := l\<rparr>) value context hp = Inr v
       \<and> (value = strip_quotes raw \<longrightarrow>
            build_attrs_loop h context hp [(CHR '':'' # key, raw)] attrs = Inr (AList.update key v attrs))"
  using assms by (auto simp add: process_dynamic_attribute_def startswith_colon_def)

theorem C1_context_variable_wins_witness:
  "variable_resolve sample_host ''items'' [(''items'', VList [VInt 1, VStr ''a''])] (\<lambda>a. []) =
     Inr (VList [VInt 1, VStr ''a''])
   \<and> process_dynamic_attribute
        (sample_host\<lparr>template_render := \<lambda>s c m. Inr ''7'', literal_eval := \<lambda>s. Inr (VInt 7)\<rparr>)
        ''items'' [(''items'', VList [VInt 1, VStr ''a''])] (\<lambda>a. []) = Inr (VList [VInt 1, VStr ''a''])
   \<and> build_attrs_loop sample_host [(''items'', VList [VInt 1, VStr ''a''])] (\<lambda>a. [])
        [('':x'', quoted ''items'')] [] = Inr [(''x'', VList [VInt 1, VStr ''a''])]"
proof -
  have r: "variable_resolve sample_host ''items'' [(''items'', VList [VInt 1, VStr ''a''])] (\<lambda>a. []) =
             Inr (VList [VInt 1, VStr ''a''])"
    by (simp add: sample_defs)
  show ?thesis
    using r
      C1_context_variable_wins [OF r, where t = "\<lambda>s c m. Inr ''7''" and l = "\<lambda>s. Inr (VInt 7)"
        and raw = "quoted ''items''" and key = "''x''" and attrs = "[]"]
    by simp
qed

text \<open>
  C2. A dynamic attribute whose raw string is not empty and does not resolve as a
  variable is first rendered as a template against the context, and the rendered
  string, not the raw one, is then parsed as a literal: the literal's value is the
  result, and the rendered string when it is no literal. So \<open>:x="prefix-{{ y }}"\<close>,
  where the host renders the string to \<open>prefix-val\<close>, which is no literal, resolves to
  the string \<open>prefix-val\<close>; and \<open>:x="42"\<close> resolves to the integer 42, whether the host
  reads the numeral when it resolves the variable or when it parses the literal.
\<close>

theorem C2_interpolate_then_literal:
  "(variable_resolve h value context hp = Inl VariableDoesNotExist \<and> value \<noteq> [] \<and>
    template_render h value context hp = Inr s \<and> literal_eval h s = Inr v
      \<longrightarrow> process_dynamic_attribute h value context hp = Inr v)
   \<and> (variable_resolve h value' context hp = Inl VariableDoesNotExist \<and> value' \<noteq> [] \<and>
    template_render h value' context hp = Inr s' \<and> literal_eval h s' = Inl e \<and>
    (e = ValueError \<or> e = SyntaxError)
      \<longrightarrow> process_dynamic_attribute h value' context hp = Inr (VStr s'))
   \<and> (variable_resolve h ''prefix-{{ y }}'' context hp = Inl VariableDoesNotExist \<and>
    template_render h ''prefix-{{ y }}'' context hp = Inr ''prefix-val'' \<and>
    literal_eval h ''prefix-val'' = Inl ValueError
      \<longrightarrow> build_attrs_loop h context hp [('':x'', quoted ''prefix-{{ y }}'')] [] =
          Inr [(''x'', VStr ''prefix-val'')])
   \<and> (variable_resolve h ''42'' context hp = Inr (VInt 42) \<or>
    variable_resolve h ''42'' context hp = Inl VariableDoesNotExist \<and>
    template_render h ''42'' context hp = Inr ''42'' \<and> literal_eval h ''42'' = Inr (VInt 42)
      \<longrightarrow> build_attrs_loop h context hp [('':x'', quoted ''42'')] [] =
          Inr [(''x'', VInt 42)])"
proof -
  show ?thesis
    by (auto simp add: process_dynamic_attribute_def parse_template_string_def
        startswith_colon_def)
qed

theorem C2_interpolate_then_literal_witness:
  "variable_resolve sample_host ''{{ n }}'' [(''y'', VStr ''val''), (''n'', VStr ''5'')] (\<lambda>a. []) =
     Inl VariableDoesNotExist
   \<and> template_render sample_host ''{{ n }}'' [(''y'', VStr ''val''), (''n'', VStr ''5'')] (\<lambda>a. []) = Inr ''5''
   \<and> literal_eval sample_host ''5'' = Inr (VInt 5)
   \<and> process_dynamic_attribute sample_host ''{{ n }}'' [(''y'', VStr ''val''), (''n'', VStr ''5'')] (\<lambda>a. []) =
       Inr (VInt 5)
   \<and> literal_eval sample_host ''prefix-val'' = Inl ValueError
   \<and> process_dynamic_attribute sample_host ''prefix-{{ y }}''
        [(''y'', VStr ''val''), (''n'', VStr ''5'')] (\<lambda>a. []) = Inr (VStr ''prefix-val'')
   \<and> build_attrs_loop sample_host [(''y'', VStr ''val''), (''n'', VStr ''5'')] (\<lambda>a. [])
        [('':x'', quoted ''prefix-{{ y }}'')] [] = Inr [(''x'', VStr ''prefix-val'')]
   \<and> variable_resolve sample_host ''42'' [(''y'', VStr ''val''), (''n'', VStr ''5'')] (\<lambda>a. []) =
       Inr (VInt 42)
   \<and> build_attrs_loop sample_host [(''y'', VStr ''val''), (''n'', VStr ''5'')] (\<lambda>a. [])
        [('':x'', quoted ''42'')] [] = Inr [(''x'', VInt 42)]"
proof -
  let ?c = "[(''y'', VStr ''val''), (''n'', VStr ''5'')]"
  let ?m = "(\<lambda>a. []) :: heap"
  have a1: "variable_resolve sample_host ''{{ n }}'' ?c ?m = Inl VariableDoesNotExist"
    by (simp add: sample_defs)
  have a2: "template_render sample_host ''{{ n }}'' ?c ?m = Inr ''5''"
    by (simp add: sample_defs)
  have a3: "literal_eval sample_host ''5'' = Inr (VInt 5)"
    by (simp add: sample_defs)
  have b1: "variable_resolve sample_host ''prefix-{{ y }}'' ?c ?m = Inl VariableDoesNotExist"
    by (simp add: sample_defs)
  have b2: "template_render sample_host ''prefix-{{ y }}'' ?c ?m = Inr ''prefix-val''"
    by (simp add: sample_defs)
  have b3: "literal_eval sample_host ''prefix-val'' = Inl ValueError"
    by (simp add: sample_defs)
  have c1: "variable_resolve sample_host ''42'' ?c ?m = Inr (VInt 42)"
    by (simp add: sample_defs)
  show ?thesis
    using a1 a2 a3 b1 b2 b3 c1
      C2_interpolate_then_literal [of sample_host "''{{ n }}''" ?c ?m "''5''" "VInt 5"
        "''prefix-{{ y }}''" "''prefix-val''" ValueError]
    by simp
qed

section \<open>Properties of the template path\<close>

lemma replace_dot_then_dash:
  "component_tpl_path p =
     map (\<lambda>c. if c = CHR ''.'' then CHR ''/'' else if c = CHR ''-'' then CHR ''_'' else c) p"
  by (induction p) (simp_all add: component_tpl_path_def replace_char_def)

text \<open>
  C4. Whenever the resolver has an identifier to work on (the declared path when it is
  not the sentinel \<open>component\<close>, the string under \<open>is\<close> when it is), the path is the base
  directory (the setting when there is one, else \<open>cotton\<close>), a slash, the identifier
  with every dot turned into a slash and every dash into an underscore, and \<open>.html\<close>.
  So \<open>component\<close> with \<open>is="widgets.button"\<close> gives \<open>base/widgets/button.html\<close>, and
  \<open>my-thing\<close> gives \<open>base/my_thing.html\<close>.
\<close>

theorem C4_template_path:
  "(component_path self \<noteq> ''component'' \<longrightarrow>
      generate_component_template_path h self attrs =
        Inr (VStr ((case cotton_dir h of Some d \<Rightarrow> d | None \<Rightarrow> ''cotton'') @ ''/'' @
                   map (\<lambda>c. if c = CHR ''.'' then CHR ''/'' else if c = CHR ''-'' then CHR ''_'' else c)
                     (component_path self) @ ''.html'')))
   \<and> (component_path self = ''component'' \<and> map_of attrs ''is'' = Some (VStr i) \<longrightarrow>
      generate_component_template_path h self attrs =
        Inr (VStr ((case cotton_dir h of Some d \<Rightarrow> d | None \<Rightarrow> ''cotton'') @ ''/'' @
                   map (\<lambda>c. if c = CHR ''.'' then CHR ''/'' else if c = CHR ''-'' then CHR ''_'' else c) i @
                   ''.html'')))
   \<and> (component_path self = ''component'' \<and> map_of attrs ''is'' = Some (VStr ''widgets.button'') \<longrightarrow>
      generate_component_template_path h self attrs =
        Inr (VStr ((case cotton_dir h of Some d \<Rightarrow> d | None \<Rightarrow> ''cotton'') @ ''/widgets/button.html'')))
   \<and> (component_path self = ''my-thing'' \<longrightarrow>
      generate_component_template_path h self attrs =
        Inr (VStr ((case cotton_dir h of Some d \<Rightarrow> d | None \<Rightarrow> ''cotton'') @ ''/my_thing.html'')))"
  by (simp add: generate_component_template_path_def format_path_def replace_dot_then_dash)


theorem C4_template_path_witness:
  "generate_component_template_path sample_host
     \<lparr>nodelist = plain_body [], component_path = ''my-thing'', component_key = ''k'', kwargs = []\<rparr> [] =
     Inr (VStr ''cotton/my_thing.html'')
   \<and> generate_component_template_path (sample_host\<lparr>cotton_dir := Some ''ui''\<rparr>)
     \<lparr>nodelist = plain_body [], component_path = ''component'', component_key = ''k'', kwargs = []\<rparr>
     [(''is'', VStr ''widgets.button'')] = Inr (VStr ''ui/widgets/button.html'')
   \<and> generate_component_template_path sample_host
     \<lparr>nodelist = plain_body [], component_path = ''component'', component_key = ''k'', kwargs = []\<rparr>
     [(''x'', VBool True), (''is'', VStr ''a.b-c.d'')] = Inr (VStr ''cotton/a/b_c/d.html'')"
  using
    C4_template_path [where self = "\<lparr>nodelist = plain_body [], component_path = ''my-thing'',
        component_key = ''k'', kwargs = []\<rparr>" and h = sample_host and attrs = "[]"]
    C4_template_path [where self = "\<lparr>nodelist = plain_body [], component_path = ''component'',
        component_key = ''k'', kwargs = []\<rparr>" and h = "sample_host\<lparr>cotton_dir := Some ''ui''\<rparr>"
        and attrs = "[(''is'', VStr ''widgets.button'')]" and i = "''widgets.button''"]
    C4_template_path [where self = "\<lparr>nodelist = plain_body [], component_path = ''component'',
        component_key = ''k'', kwargs = []\<rparr>" and h = sample_host
        and attrs = "[(''x'', VBool True), (''is'', VStr ''a.b-c.d'')]" and i = "''a.b-c.d''"]
  by (simp add: sample_host_def)

lemma fold_update_keys:
  "fst ` set (fold (\<lambda>kv acc. AList.update (f (fst kv)) (snd kv) acc) xs acc) =
     fst ` set acc \<union> f ` fst ` set xs"
  by (induction xs arbitrary: acc) (auto simp add: dom_update)

lemma callable_attrs_keys:
  "fst ` set (callable_attrs attrs) = replace_char CHR ''-'' CHR ''_'' ` fst ` set attrs"
  by (simp add: callable_attrs_def fold_update_keys)

lemma norm_char: "(if a = CHR ''-'' then CHR ''_'' else a) = c \<Longrightarrow> c \<noteq> CHR ''_'' \<Longrightarrow> a = c"
  by (cases "a = CHR ''-''") simp_all

lemma normalised_is: "replace_char CHR ''-'' CHR ''_'' k = ''is'' \<longleftrightarrow> k = ''is''"
proof
  assume a: "replace_char CHR ''-'' CHR ''_'' k = ''is''"
  then obtain x y where k: "k = [x, y]"
    unfolding replace_char_def by (cases k; cases "tl k"; cases "tl (tl k)") auto
  from a k have "x = CHR ''i''" "y = CHR ''s''"
    unfolding replace_char_def by (auto dest: norm_char)
  with k show "k = ''is''" by simp
next
  assume "k = ''is''"
  then show "replace_char CHR ''-'' CHR ''_'' k = ''is''"
    by (simp add: replace_char_def)
qed

lemma callable_attrs_is:
  "map_of (callable_attrs attrs) ''is'' = None \<longleftrightarrow> map_of attrs ''is'' = None"
proof -
  have "''is'' \<in> fst ` set (callable_attrs attrs) \<longleftrightarrow> ''is'' \<in> fst ` set attrs"
  proof
    assume "''is'' \<in> fst ` set (callable_attrs attrs)"
    then obtain k where k: "k \<in> fst ` set attrs" and "replace_char CHR ''-'' CHR ''_'' k = ''is''"
      unfolding callable_attrs_keys by (elim imageE) (simp, metis imageI)
    then have "k = ''is''"
      by (simp add: normalised_is)
    with k show "''is'' \<in> fst ` set attrs" by simp
  next
    assume "''is'' \<in> fst ` set attrs"
    then have "replace_char CHR ''-'' CHR ''_'' ''is'' \<in> fst ` set (callable_attrs attrs)"
      unfolding callable_attrs_keys by (rule imageI)
    moreover have "replace_char CHR ''-'' CHR ''_'' ''is'' = ''is''"
      by (simp add: replace_char_def)
    ultimately show "''is'' \<in> fst ` set (callable_attrs attrs)" by simp
  qed
  then show ?thesis
    unfolding map_of_eq_None_iff by simp
qed

text \<open>
  C5. With the sentinel path \<open>component\<close> and no \<open>is\<close> key among the resolved attributes
  the path resolver does not raise: it returns the exception object it built. \<open>render\<close>
  then hands that object to the template loader as the template to load.
\<close>

theorem C5_missing_is_returns_exception:
  "(component_path self = ''component'' \<and> map_of attrs ''is'' = None \<longrightarrow>
      generate_component_template_path h self attrs =
        Inr (VExc CottonIncompleteDynamicComponentException incomplete_message))
   \<and> (component_path self = ''component'' \<and> render_prepare h self context hp = Inr p \<and>
      map_of (attrs_dict p) ''is'' = None \<longrightarrow>
        template_path p = VExc CottonIncompleteDynamicComponentException incomplete_message \<and>
        render h self context hp =
          get_template_render h (VExc CottonIncompleteDynamicComponentException incomplete_message)
            (local_ctx p) (heap_after p))"
proof -
  have path: "generate_component_template_path h self a =
      Inr (VExc CottonIncompleteDynamicComponentException incomplete_message)"
    if "component_path self = ''component''" and "map_of a ''is'' = None" for a
    using that by (simp add: generate_component_template_path_def)
  have "template_path p = VExc CottonIncompleteDynamicComponentException incomplete_message"
    if c: "component_path self = ''component''" and r: "render_prepare h self context hp = Inr p"
      and n: "map_of (attrs_dict p) ''is'' = None"
  proof -
    from r obtain attrs1 where
      a: "attrs_dict p = attrs1" and
      g: "generate_component_template_path h self (callable_attrs attrs1) = Inr (template_path p)"
      by (auto simp add: render_prepare_def Let_def split: sum.splits prod.splits)
    from n a have "map_of (callable_attrs attrs1) ''is'' = None"
      by (simp add: callable_attrs_is)
    with path [OF c] g show ?thesis by simp
  qed
  then show ?thesis
    using path by (auto simp add: render_def)
qed

lemmas render_defs =
  render_prepare_def build_attrs_def Let_def slots_object_def all_named_slots_def
  local_named_slots_def dict_update_def expression_attrs_def iterate_def attrs_string_def
  callable_attrs_def reset_slots_def generate_component_template_path_def format_path_def
  component_tpl_path_def plain_body_def quoted_def

theorem C5_missing_is_returns_exception_witness:
  "generate_component_template_path sample_host
     \<lparr>nodelist = plain_body ''body'', component_path = ''component'', component_key = ''k1'',
      kwargs = [(''x-init'', quoted ''go'')]\<rparr> [(''x_init'', VStr ''go'')] =
     Inr (VExc CottonIncompleteDynamicComponentException incomplete_message)
   \<and> (\<exists>p. render_prepare sample_host
         \<lparr>nodelist = plain_body ''body'', component_path = ''component'', component_key = ''k1'',
          kwargs = [(''x-init'', quoted ''go'')]\<rparr> [] (\<lambda>a. []) = Inr p
       \<and> attrs_dict p = [(''x-init'', VStr ''go'')]
       \<and> template_path p = VExc CottonIncompleteDynamicComponentException incomplete_message
       \<and> render sample_host
         \<lparr>nodelist = plain_body ''body'', component_path = ''component'', component_key = ''k1'',
          kwargs = [(''x-init'', quoted ''go'')]\<rparr> [] (\<lambda>a. []) = Inl TemplateDoesNotExist)"
proof -
  let ?n = "\<lparr>nodelist = plain_body ''body'', component_path = ''component'', component_key = ''k1'',
      kwargs = [(''x-init'', quoted ''go'')]\<rparr>"
  have "\<exists>p. render_prepare sample_host ?n [] (\<lambda>a. []) = Inr p \<and> attrs_dict p = [(''x-init'', VStr ''go'')]"
    by (simp add: render_defs model_defs sample_defs)
  then obtain p where p: "render_prepare sample_host ?n [] (\<lambda>a. []) = Inr p"
    and a: "attrs_dict p = [(''x-init'', VStr ''go'')]"
    by blast
  have c: "component_path ?n = ''component''"
    by simp
  from a have n: "map_of (attrs_dict p) ''is'' = None"
    by simp
  have g: "get_template_render sample_host
      (VExc CottonIncompleteDynamicComponentException incomplete_message) (local_ctx p) (heap_after p) =
      Inl TemplateDoesNotExist"
    by (simp add: sample_defs)
  show ?thesis
    using p a c n g
      C5_missing_is_returns_exception [of ?n "[(''x_init'', VStr ''go'')]" sample_host
        "[]" "\<lambda>a. []" p]
    by auto
qed

section \<open>Where the evaluator and the parser go wrong\<close>

text \<open>
  C6. The evaluator is written never to raise: line 119 answers the empty string with
  \<open>True\<close>, and the two \<^verbatim>\<open>try\<close> blocks around the rendering and the literal parsing
  fall back to the string. It raises all the same. On the empty string the variable
  lookup of line 114 raises \<^verbatim>\<open>IndexError\<close> (\<^verbatim>\<open>Variable.__init__\<close> reads \<^verbatim>\<open>var[0]\<close>), line
  115 catches \<^verbatim>\<open>VariableDoesNotExist\<close> only, and line 119 is never reached. On a
  template that does not parse the renderer raises \<^verbatim>\<open>TemplateSyntaxError\<close>, which is
  neither of the two classes that line 156 catches.
\<close>

theorem C6_empty_value_raises:
  "process_dynamic_attribute sample_host [] context hp = Inl IndexError
   \<and> process_dynamic_attribute sample_host ''{{ }}'' [] hp = Inl TemplateSyntaxError"
  by (simp add: model_defs sample_defs)

text \<open>
  Any exception of the lookup other than \<^verbatim>\<open>VariableDoesNotExist\<close> leaves the evaluator
  as it came, whatever the host.
\<close>

lemma lookup_exception_propagates:
  "variable_resolve h value context hp = Inl e \<Longrightarrow> e \<noteq> VariableDoesNotExist \<Longrightarrow>
   process_dynamic_attribute h value context hp = Inl e"
  by (simp add: process_dynamic_attribute_def)

lemma length_split_on: "length (split_on c s) = Suc (length (filter (\<lambda>x. x = c) s))"
  by (induction s) (auto split: list.splits)

lemma split_on_without: "c \<notin> set s \<Longrightarrow> split_on c s = [s]"
  by (induction s) auto

lemma split_on_once: "c \<notin> set k \<Longrightarrow> split_on c (k @ c # v) = k # split_on c v"
  by (induction k) auto

text \<open>
  What the parser does with a bit: without \<open>=\<close> the bit is a key with the empty value;
  with one \<open>=\<close> it is a key and a value; with two or more the unpacking of line 29
  fails as well, and the whole bit, value and all, is a key with the empty value.
\<close>

lemma parse_bit_without_eq: "CHR ''='' \<notin> set b \<Longrightarrow> parse_bit b = (b, [])"
  by (simp add: parse_bit_def split_on_without)

lemma parse_bit_one_eq:
  "CHR ''='' \<notin> set k \<Longrightarrow> CHR ''='' \<notin> set v \<Longrightarrow> parse_bit (k @ ''='' @ v) = (k, v)"
  by (simp add: parse_bit_def split_on_once split_on_without)

lemma parse_bit_many_eq:
  assumes "2 \<le> length (filter (\<lambda>x. x = CHR ''='') b)"
  shows "parse_bit b = (b, [])"
proof -
  from assms have "3 \<le> length (split_on CHR ''='' b)"
    by (simp add: length_split_on)
  then show ?thesis
    by (auto simp add: parse_bit_def split: list.splits)
qed

text \<open>
  C7. The parser is to split a bit once on \<open>=\<close>, into the key and the value. Line 29
  splits on every \<open>=\<close>, so a bit whose value holds a \<open>=\<close> has three parts, the
  unpacking raises \<^verbatim>\<open>ValueError\<close>, and line 30, written for a bit with no value, takes the
  whole bit for a key: \<open>href="/p?q=1"\<close> becomes the attribute named \<open>href="/p?q=1"\<close> with
  the value \<open>True\<close>, where one split gives the key \<open>href\<close> and the value \<open>"/p?q=1"\<close>.
\<close>

theorem C7_second_equals_sign:
  "split_on CHR ''='' (''href='' @ quoted ''/p?q=1'') = [''href'', dquote # ''/p?q'', ''1'' @ [dquote]]
   \<and> parse_bit (''href='' @ quoted ''/p?q=1'') = (''href='' @ quoted ''/p?q=1'', [])
   \<and> parse_kwargs [''href='' @ quoted ''/p?q=1''] = [(''href='' @ quoted ''/p?q=1'', [])]
   \<and> build_attrs_loop h context hp (parse_kwargs [''href='' @ quoted ''/p?q=1'']) [] =
       Inr [(''href='' @ quoted ''/p?q=1'', VBool True)]"
  by (simp add: parse_bit_def parse_kwargs_def quoted_def dquote_def model_defs)

text \<open>
  C10. A value that is one quote character is stripped to the empty string, and a
  static attribute with it is \<open>True\<close>. A dynamic one is meant to be \<open>True\<close> too (line 119),
  but the evaluator raises on the empty string, as in C6.
\<close>

theorem C10_lone_quote:
  "strip_quotes [dquote] = [] \<and> strip_quotes [squote] = []
   \<and> build_attrs_loop h context hp [(''x'', [dquote])] [] = Inr [(''x'', VBool True)]
   \<and> build_attrs_loop h context hp [(''x'', [squote])] [] = Inr [(''x'', VBool True)]
   \<and> build_attrs_loop sample_host context hp [('':x'', [dquote])] [] = Inl IndexError
   \<and> build_attrs_loop sample_host context hp [('':x'', [squote])] [] = Inl IndexError"
  by (simp add: model_defs sample_defs)

section \<open>Properties of the slot store\<close>

lemma dict_update_empty [simp]: "dict_update d [] = d"
  by (simp add: dict_update_def)

lemma expression_attrs_empty [simp]: "expression_attrs h [] local_context hp attrs = Inr attrs"
  by (simp add: expression_attrs_def)

lemma reset_then_consume:
  "local_named_slots (all_named_slots (reset_slots hp r key) r) key = []"
  by (cases r) (simp_all add: local_named_slots_def all_named_slots_def reset_slots_def update_conv')

lemma slots_object_ref:
  "slots_object c = Inr r \<Longrightarrow> map_of c ''cotton_named_slots'' = Some (VRef a) \<Longrightarrow> r = Some a"
  by (simp add: slots_object_def)

lemma render_prepare_after:
  assumes "render_prepare h self context hp = Inr p"
  shows "\<exists>slot hp1 r. nodelist self context hp = Inr (slot, ctx_after p, hp1) \<and>
           slots_object (ctx_after p) = Inr r \<and>
           heap_after p = reset_slots hp1 r (component_key self)"
  using assms
  by (auto simp add: render_prepare_def Let_def split: sum.splits prod.splits)

text \<open>
  C3. When \<open>render\<close> has consumed the named slots of its component key, the entry of
  that key in the slot store is the empty mapping: the next node with the same key reads
  no named slot from the store, and when the context holds a store, the store maps the
  key to the empty dict. So a second invocation of the key, started where the first
  ended and with a body that captures no slot, builds its rendering context from the
  context, its own body and its own attributes alone: nothing of the first invocation's
  slots is in it.
\<close>

theorem C3_slots_reset_after_use:
  assumes "render_prepare h self context hp = Inr p"
  shows "consumed_slots (ctx_after p) (heap_after p) (component_key self) = Inr []
       \<and> (\<forall>a. map_of (ctx_after p) ''cotton_named_slots'' = Some (VRef a) \<longrightarrow>
              map_of (heap_after p a) (component_key self) = Some [])
       \<and> (\<forall>self2 out p2.
              component_key self2 = component_key self \<and>
              nodelist self2 (ctx_after p) (heap_after p) = Inr (out, ctx_after p, heap_after p) \<and>
              render_prepare h self2 (ctx_after p) (heap_after p) = Inr p2 \<longrightarrow>
              build_attrs h self2 (ctx_after p) (heap_after p) = Inr (attrs_dict p2) \<and>
              local_ctx p2 =
                dict_update
                  (AList.update ''attrs_dict'' (VDict (attrs_dict p2))
                    (AList.update ''attrs'' (VStr (attrs_string h (attrs_dict p2)))
                      (AList.update ''slot'' (VStr out) (ctx_after p))))
                  (callable_attrs (attrs_dict p2)))"
proof -
  from render_prepare_after [OF assms] obtain slot hp1 r where
    r: "slots_object (ctx_after p) = Inr r" and
    hp: "heap_after p = reset_slots hp1 r (component_key self)"
    by blast
  have consumed: "consumed_slots (ctx_after p) (heap_after p) (component_key self) = Inr []"
    by (simp add: consumed_slots_def r hp reset_then_consume)
  have entry: "map_of (heap_after p a) (component_key self) = Some []"
    if "map_of (ctx_after p) ''cotton_named_slots'' = Some (VRef a)" for a
  proof -
    from slots_object_ref [OF r that] have "r = Some a" .
    then show ?thesis
      by (simp add: hp reset_slots_def update_conv')
  qed
  have second: "build_attrs h self2 (ctx_after p) (heap_after p) = Inr (attrs_dict p2) \<and>
      local_ctx p2 =
        dict_update
          (AList.update ''attrs_dict'' (VDict (attrs_dict p2))
            (AList.update ''attrs'' (VStr (attrs_string h (attrs_dict p2)))
              (AList.update ''slot'' (VStr out) (ctx_after p))))
          (callable_attrs (attrs_dict p2))"
    if k: "component_key self2 = component_key self"
      and b: "nodelist self2 (ctx_after p) (heap_after p) = Inr (out, ctx_after p, heap_after p)"
      and p2: "render_prepare h self2 (ctx_after p) (heap_after p) = Inr p2"
    for self2 out p2
  proof -
    have "local_named_slots (all_named_slots (heap_after p) r) (component_key self2) = []"
      by (simp add: k hp reset_then_consume)
    with p2 b r show ?thesis
      by (auto simp add: render_prepare_def Let_def split: sum.splits)
  qed
  from consumed entry second show ?thesis
    by blast
qed

theorem C3_slots_reset_after_use_witness:
  "\<exists>p. render_prepare sample_host
         \<lparr>nodelist = slot_body 0 ''k1'' ''footer'' (VStr ''first'') ''body'',
          component_path = ''card'', component_key = ''k1'', kwargs = [(''title'', quoted ''Hi'')]\<rparr>
         [(''cotton_named_slots'', VRef 0)] (\<lambda>a. []) = Inr p
     \<and> map_of (local_ctx p) ''footer'' = Some (VStr ''first'')
     \<and> consumed_slots (ctx_after p) (heap_after p) ''k1'' = Inr []
     \<and> map_of (heap_after p 0) ''k1'' = Some []
     \<and> (\<exists>p2. render_prepare sample_host
           \<lparr>nodelist = plain_body ''again'', component_path = ''card'', component_key = ''k1'',
            kwargs = []\<rparr> (ctx_after p) (heap_after p) = Inr p2
         \<and> local_ctx p2 =
             [(''cotton_named_slots'', VRef 0), (''slot'', VStr ''again''), (''attrs'', VStr []),
              (''attrs_dict'', VDict [])]
         \<and> map_of (local_ctx p2) ''footer'' = None)"
proof -
  let ?n1 = "\<lparr>nodelist = slot_body 0 ''k1'' ''footer'' (VStr ''first'') ''body'',
          component_path = ''card'', component_key = ''k1'', kwargs = [(''title'', quoted ''Hi'')]\<rparr>"
  let ?n2 = "\<lparr>nodelist = plain_body ''again'', component_path = ''card'', component_key = ''k1'',
            kwargs = []\<rparr>"
  have "\<exists>p. render_prepare sample_host ?n1 [(''cotton_named_slots'', VRef 0)] (\<lambda>a. []) = Inr p
      \<and> map_of (local_ctx p) ''footer'' = Some (VStr ''first'')
      \<and> ctx_after p = [(''cotton_named_slots'', VRef 0)]
      \<and> heap_after p = (\<lambda>a. [])(0 := [(''k1'', [])])"
    by (simp add: render_defs model_defs sample_defs slot_body_def)
  then obtain p where
    p: "render_prepare sample_host ?n1 [(''cotton_named_slots'', VRef 0)] (\<lambda>a. []) = Inr p" and
    f: "map_of (local_ctx p) ''footer'' = Some (VStr ''first'')" and
    c: "ctx_after p = [(''cotton_named_slots'', VRef 0)]" and
    m: "heap_after p = (\<lambda>a. [])(0 := [(''k1'', [])])"
    by blast
  have "\<exists>p2. render_prepare sample_host ?n2 (ctx_after p) (heap_after p) = Inr p2"
    unfolding c m by (simp add: render_defs model_defs sample_defs)
  then obtain p2 where
    p2: "render_prepare sample_host ?n2 (ctx_after p) (heap_after p) = Inr p2"
    by blast
  have b: "nodelist ?n2 (ctx_after p) (heap_after p) = Inr (''again'', ctx_after p, heap_after p)"
    by (simp add: plain_body_def)
  have a: "build_attrs sample_host ?n2 (ctx_after p) (heap_after p) = Inr []"
    by (simp add: build_attrs_def)
  note T = C3_slots_reset_after_use [OF p]
  from T have t1: "consumed_slots (ctx_after p) (heap_after p) ''k1'' = Inr []"
    by simp
  from T c have t2: "map_of (heap_after p 0) ''k1'' = Some []"
    by simp
  have t3: "build_attrs sample_host ?n2 (ctx_after p) (heap_after p) = Inr (attrs_dict p2) \<and>
         local_ctx p2 =
           dict_update
             (AList.update ''attrs_dict'' (VDict (attrs_dict p2))
               (AList.update ''attrs'' (VStr (attrs_string sample_host (attrs_dict p2)))
                 (AList.update ''slot'' (VStr ''again'') (ctx_after p))))
             (callable_attrs (attrs_dict p2))"
    using T [THEN conjunct2, THEN conjunct2, rule_format, of ?n2 "''again''" p2] b p2
    by simp
  from t3 a have d: "attrs_dict p2 = []"
    by simp
  from t3 have l: "local_ctx p2 =
      [(''cotton_named_slots'', VRef 0), (''slot'', VStr ''again''), (''attrs'', VStr []),
       (''attrs_dict'', VDict [])]"
    unfolding d c by (simp add: attrs_string_def callable_attrs_def)
  from p f t1 t2 p2 l show ?thesis
    by auto
qed

section \<open>Properties of the attribute mapping\<close>

lemma lstrip_colon_no_colon: "\<not> startswith_colon (lstrip_colon s)"
  by (induction s) (simp_all add: startswith_colon_def lstrip_colon_def)

lemma build_attrs_loop_keys:
  "build_attrs_loop h c hp kws attrs = Inr attrs' \<Longrightarrow>
   \<forall>key \<in> fst ` set kws. \<not> (startswith_colon key \<and> startswith_colon (tl key)) \<Longrightarrow>
   \<forall>key \<in> fst ` set attrs. \<not> startswith_colon key \<Longrightarrow>
   \<forall>key \<in> fst ` set attrs'. \<not> startswith_colon key"
proof (induction h c hp kws attrs rule: build_attrs_loop.induct)
  case (1 h c hp attrs)
  then show ?case by simp
next
  case (2 h c hp key "value" rest attrs)
  from "2.prems"(2) have rest: "\<forall>k \<in> fst ` set rest. \<not> (startswith_colon k \<and> startswith_colon (tl k))"
    and key: "\<not> (startswith_colon key \<and> startswith_colon (tl key))"
    by simp_all
  show ?case
  proof (cases "startswith_colon key")
    case True
    with "2.prems"(1) obtain v where
      v: "process_dynamic_attribute h (strip_quotes value) c hp = Inr v" and
      r: "build_attrs_loop h c hp rest (AList.update (tl key) v attrs) = Inr attrs'"
      by (auto split: sum.splits)
    from True key have "\<not> startswith_colon (tl key)"
      by simp
    with "2.prems"(3) have "\<forall>k \<in> fst ` set (AList.update (tl key) v attrs). \<not> startswith_colon k"
      by (simp add: dom_update)
    from "2.IH"(1) [OF True v r rest this] show ?thesis .
  next
    case False
    show ?thesis
    proof (cases "strip_quotes value = []")
      case e: True
      with False "2.prems"(1) have
        r: "build_attrs_loop h c hp rest (AList.update key (VBool True) attrs) = Inr attrs'"
        by simp
      from False "2.prems"(3) have
        "\<forall>k \<in> fst ` set (AList.update key (VBool True) attrs). \<not> startswith_colon k"
        by (simp add: dom_update)
      from "2.IH"(2) [OF False e r rest this] show ?thesis .
    next
      case e: False
      with False "2.prems"(1) have
        r: "build_attrs_loop h c hp rest (AList.update key (VStr (strip_quotes value)) attrs) = Inr attrs'"
        by simp
      from False "2.prems"(3) have
        "\<forall>k \<in> fst ` set (AList.update key (VStr (strip_quotes value)) attrs). \<not> startswith_colon k"
        by (simp add: dom_update)
      from "2.IH"(3) [OF False e r rest this] show ?thesis .
    qed
  qed
qed

lemma expression_attrs_loop_keys:
  "expression_attrs_loop h named c hp items attrs = Inr attrs' \<Longrightarrow>
   \<forall>key \<in> fst ` set attrs. \<not> startswith_colon key \<Longrightarrow>
   \<forall>key \<in> fst ` set attrs'. \<not> startswith_colon key"
proof (induction items arbitrary: attrs)
  case Nil
  then show ?case by simp
next
  case (Cons item rest)
  from Cons.prems(1) obtain name "value" v where
    r: "expression_attrs_loop h named c hp rest (AList.update (lstrip_colon name) v attrs) = Inr attrs'"
    by (auto split: pyval.splits option.splits sum.splits)
  from Cons.prems(2) have
    "\<forall>k \<in> fst ` set (AList.update (lstrip_colon name) v attrs). \<not> startswith_colon k"
    by (simp add: dom_update lstrip_colon_no_colon)
  from Cons.IH [OF r this] show ?case .
qed

lemma expression_attrs_keys:
  "expression_attrs h named c hp attrs = Inr attrs' \<Longrightarrow>
   \<forall>key \<in> fst ` set attrs. \<not> startswith_colon key \<Longrightarrow>
   \<forall>key \<in> fst ` set attrs'. \<not> startswith_colon key"
  by (auto simp add: expression_attrs_def split: option.splits sum.splits
      dest: expression_attrs_loop_keys)

lemma fold_update_distinct:
  "distinct (map fst acc) \<Longrightarrow>
   distinct (map fst (fold (\<lambda>kv acc. AList.update (f (fst kv)) (snd kv) acc) xs acc))"
  by (induction xs arbitrary: acc) (simp_all add: distinct_update)

lemma callable_attrs_distinct: "distinct (map fst (callable_attrs attrs))"
  by (simp add: callable_attrs_def fold_update_distinct)

lemma map_of_dict_update:
  "distinct (map fst e) \<Longrightarrow> map_of (dict_update d e) = map_of d ++ map_of e"
proof (induction e arbitrary: d)
  case Nil
  then show ?case by simp
next
  case (Cons kv e)
  obtain k v where kv: "kv = (k, v)"
    by (cases kv)
  from Cons.prems kv have k: "k \<notin> dom (map_of e)" and d: "distinct (map fst e)"
    by (auto simp add: dom_map_of_conv_image_fst)
  have "dict_update d (kv # e) = dict_update (AList.update k v d) e"
    by (simp add: dict_update_def kv)
  then have "map_of (dict_update d (kv # e)) = map_of (AList.update k v d) ++ map_of e"
    by (simp only: Cons.IH [OF d])
  also have "\<dots> = (map_of d)(k \<mapsto> v) ++ map_of e"
    by (simp only: update_conv')
  also from k have "\<dots> = map_of d ++ map_of (kv # e)"
    by (auto simp add: kv map_add_def fun_eq_iff split: option.splits)
  finally show ?case .
qed

lemma no_dash_after_replace: "CHR ''-'' \<notin> set (replace_char CHR ''-'' CHR ''_'' key)"
  by (induction key) (simp_all add: replace_char_def)

lemma render_prepare_parts:
  assumes "render_prepare h self context hp = Inr p"
  shows "\<exists>attrs named local1 hp1 local2.
           build_attrs_loop h context hp (kwargs self) [] = Inr attrs \<and>
           expression_attrs h named local1 hp1 attrs = Inr (attrs_dict p) \<and>
           local_ctx p = dict_update local2 (callable_attrs (attrs_dict p))"
  using assms
  by (fastforce simp add: render_prepare_def build_attrs_def Let_def split: sum.splits prod.splits)

text \<open>
  C8, as the code has it. \<^verbatim>\<open>_build_attrs\<close> takes one colon off a dynamic key (line 99), the
  deferred expression attributes lose all their leading colons (line 69). So the final
  attribute mapping has no key that begins with a colon, provided no key of the tag
  begins with two; and the keys under which the attributes are exposed as context
  variables are the keys of the mapping with every dash turned into an underscore: none
  of them holds a dash, and the local context binds each of them to its value.
\<close>

theorem C8_keys_of_the_attributes:
  assumes "render_prepare h self context hp = Inr p"
  shows "((\<forall>key \<in> fst ` set (kwargs self). \<not> (startswith_colon key \<and> startswith_colon (tl key))) \<longrightarrow>
          (\<forall>key \<in> fst ` set (attrs_dict p). \<not> startswith_colon key))
       \<and> fst ` set (callable_attrs (attrs_dict p)) =
           replace_char CHR ''-'' CHR ''_'' ` fst ` set (attrs_dict p)
       \<and> (\<forall>key \<in> fst ` set (callable_attrs (attrs_dict p)). CHR ''-'' \<notin> set key)
       \<and> (\<forall>key value. map_of (callable_attrs (attrs_dict p)) key = Some value \<longrightarrow>
              map_of (local_ctx p) key = Some value)"
proof -
  from render_prepare_parts [OF assms] obtain attrs named local1 hp1 local2 where
    b: "build_attrs_loop h context hp (kwargs self) [] = Inr attrs" and
    e: "expression_attrs h named local1 hp1 attrs = Inr (attrs_dict p)" and
    l: "local_ctx p = dict_update local2 (callable_attrs (attrs_dict p))"
    by blast
  have colon: "\<forall>key \<in> fst ` set (attrs_dict p). \<not> startswith_colon key"
    if "\<forall>key \<in> fst ` set (kwargs self). \<not> (startswith_colon key \<and> startswith_colon (tl key))"
  proof -
    from build_attrs_loop_keys [OF b that] have "\<forall>key \<in> fst ` set attrs. \<not> startswith_colon key"
      by simp
    from expression_attrs_keys [OF e this] show ?thesis .
  qed
  have dash: "\<forall>key \<in> fst ` set (callable_attrs (attrs_dict p)). CHR ''-'' \<notin> set key"
    by (auto simp add: callable_attrs_keys no_dash_after_replace)
  have exposed: "map_of (local_ctx p) key = Some v"
    if "map_of (callable_attrs (attrs_dict p)) key = Some v" for key v
  proof -
    from l have "map_of (local_ctx p) = map_of local2 ++ map_of (callable_attrs (attrs_dict p))"
      by (simp add: map_of_dict_update callable_attrs_distinct)
    with that show ?thesis
      by simp
  qed
  from colon dash exposed show ?thesis
    by (simp add: callable_attrs_keys)
qed

theorem C8_double_colon_counterexample:
  "\<exists>p. render_prepare sample_host
         \<lparr>nodelist = plain_body ''body'', component_path = ''card'', component_key = ''k1'',
          kwargs = parse_kwargs [''::x=1'']\<rparr> [] (\<lambda>a. []) = Inr p
     \<and> attrs_dict p = [('':x'', VInt 1)]
     \<and> startswith_colon '':x''"
  by (simp add: render_defs model_defs sample_defs parse_kwargs_def parse_bit_def)

theorem C8_keys_of_the_attributes_witness:
  "\<exists>p. render_prepare sample_host
         \<lparr>nodelist = plain_body ''body'', component_path = ''card'', component_key = ''k1'',
          kwargs = [('':count'', quoted ''3''), (''x-init'', quoted ''go'')]\<rparr>
         [(''cotton_named_slots'', VRef 0), (''y'', VStr ''val'')]
         ((\<lambda>a. [])(0 := [(''k1'', [('':label'', VStr ''{{ y }}''),
            (''ctn_template_expression_attrs'', VList [VStr '':label''])])])) = Inr p
     \<and> attrs_dict p = [(''count'', VInt 3), (''x-init'', VStr ''go''), (''label'', VStr ''val'')]
     \<and> list_all (\<lambda>key. \<not> startswith_colon key) (map fst (attrs_dict p))
     \<and> list_all (\<lambda>key. CHR ''-'' \<notin> set key) (map fst (callable_attrs (attrs_dict p)))
     \<and> map_of (local_ctx p) ''x_init'' = Some (VStr ''go'')"
proof -
  let ?n = "\<lparr>nodelist = plain_body ''body'', component_path = ''card'', component_key = ''k1'',
          kwargs = [('':count'', quoted ''3''), (''x-init'', quoted ''go'')]\<rparr>"
  let ?c = "[(''cotton_named_slots'', VRef 0), (''y'', VStr ''val'')]"
  let ?m = "(\<lambda>a. [])(0 := [(''k1'', [('':label'', VStr ''{{ y }}''),
            (''ctn_template_expression_attrs'', VList [VStr '':label''])])])"
  have "\<exists>p. render_prepare sample_host ?n ?c ?m = Inr p
      \<and> attrs_dict p = [(''count'', VInt 3), (''x-init'', VStr ''go''), (''label'', VStr ''val'')]"
    by (simp add: render_defs model_defs sample_defs digits_of.simps)
  then obtain p where
    p: "render_prepare sample_host ?n ?c ?m = Inr p" and
    a: "attrs_dict p = [(''count'', VInt 3), (''x-init'', VStr ''go''), (''label'', VStr ''val'')]"
    by blast
  have k: "\<forall>key \<in> fst ` set (kwargs ?n). \<not> (startswith_colon key \<and> startswith_colon (tl key))"
    by (simp add: startswith_colon_def)
  have x: "map_of (callable_attrs (attrs_dict p)) ''x_init'' = Some (VStr ''go'')"
    unfolding a by (simp add: callable_attrs_def replace_char_def)
  note T = C8_keys_of_the_attributes [OF p]
  have "\<forall>key \<in> fst ` set (attrs_dict p). \<not> startswith_colon key"
    using T [THEN conjunct1, THEN mp, OF k] .
  then have t1: "list_all (\<lambda>key. \<not> startswith_colon key) (map fst (attrs_dict p))"
    unfolding list_all_iff by simp
  have "\<forall>key \<in> fst ` set (callable_attrs (attrs_dict p)). CHR ''-'' \<notin> set key"
    using T [THEN conjunct2, THEN conjunct2, THEN conjunct1] .
  then have t2: "list_all (\<lambda>key. CHR ''-'' \<notin> set key) (map fst (callable_attrs (attrs_dict p)))"
    unfolding list_all_iff by simp
  have t3: "map_of (local_ctx p) ''x_init'' = Some (VStr ''go'')"
    using T [THEN conjunct2, THEN conjunct2, THEN conjunct2, rule_format, OF x] .
  show ?thesis
    apply (rule exI [of _ p])
    using p a t1 t2 t3
    apply (intro conjI)
        apply assumption+
    done
qed

section \<open>The attrs string read back\<close>

lemma attr_tokens_word:
  "dquote \<notin> set w \<Longrightarrow> CHR '' '' \<notin> set w \<Longrightarrow>
   attr_tokens False cur (w @ rest) = attr_tokens False (rev w @ cur) rest"
  by (induction w arbitrary: cur) auto

lemma attr_tokens_quoted:
  "dquote \<notin> set s \<Longrightarrow>
   attr_tokens True cur (s @ dquote # rest) = attr_tokens False (dquote # rev s @ cur) rest"
  by (induction s arbitrary: cur) auto

lemma attr_tokens_pair:
  assumes "dquote \<notin> set k" and "CHR '' '' \<notin> set k" and "dquote \<notin> set s"
  shows "attr_tokens False [] ((k @ ''='' @ dquote # s @ [dquote]) @ rest) =
         attr_tokens False (rev (k @ ''='' @ dquote # s @ [dquote])) rest"
proof -
  have e: "dquote \<notin> set (k @ ''='')" "CHR '' '' \<notin> set (k @ ''='')"
    using assms by (simp_all add: dquote_def)
  have "attr_tokens False [] ((k @ ''='' @ dquote # s @ [dquote]) @ rest) =
        attr_tokens False [] ((k @ ''='') @ dquote # s @ dquote # rest)"
    by simp
  also have "\<dots> = attr_tokens False (rev (k @ ''='') @ []) (dquote # s @ dquote # rest)"
    by (rule attr_tokens_word [OF e])
  also have "\<dots> = attr_tokens True (dquote # rev (k @ ''='')) (s @ dquote # rest)"
    by simp
  also have "\<dots> = attr_tokens False (dquote # rev s @ dquote # rev (k @ ''='')) rest"
    by (rule attr_tokens_quoted [OF assms(3)])
  finally show ?thesis
    by simp
qed

lemma attr_tokens_join:
  assumes "\<forall>p \<in> set ps. \<exists>k s. p = k @ ''='' @ dquote # s @ [dquote] \<and>
             dquote \<notin> set k \<and> CHR '' '' \<notin> set k \<and> dquote \<notin> set s"
  shows "attr_tokens False [] (join '' '' ps) = ps"
  using assms
proof (induction "'' ''" ps rule: join.induct)
  case 1
  then show ?case by simp
next
  case (2 x)
  then obtain k s where x: "x = k @ ''='' @ dquote # s @ [dquote]"
    and c: "dquote \<notin> set k" "CHR '' '' \<notin> set k" "dquote \<notin> set s"
    by auto
  from attr_tokens_pair [OF c, of "[]"] show ?case
    by (simp add: x)
next
  case (3 x y ys)
  then obtain k s where x: "x = k @ ''='' @ dquote # s @ [dquote]"
    and c: "dquote \<notin> set k" "CHR '' '' \<notin> set k" "dquote \<notin> set s"
    by auto
  from "3.prems" have "attr_tokens False [] (join '' '' (y # ys)) = y # ys"
    by (intro "3.hyps") simp
  with attr_tokens_pair [OF c, of "'' '' @ join '' '' (y # ys)"] show ?case
    by (simp add: x dquote_def)
qed

lemma well_quotedD:
  assumes "well_quoted t"
  shows "\<exists>s. t = dquote # s @ [dquote] \<and> dquote \<notin> set s"
proof -
  from assms obtain c r where t: "t = c # r" and r: "r \<noteq> []"
    by (cases t; cases "tl t") (auto simp add: well_quoted_def)
  from assms t r have "t = dquote # butlast r @ [dquote]" and "dquote \<notin> set (butlast r)"
    by (auto simp add: well_quoted_def) (metis append_butlast_last_id)
  then show ?thesis
    by blast
qed

lemma takeWhile_key:
  "CHR ''='' \<notin> set k \<Longrightarrow> takeWhile (\<lambda>c. c \<noteq> CHR ''='') (k @ CHR ''='' # t) = k"
  by (induction k) auto

text \<open>
  The serialisation of line 72 does not tell where a pair ends: whatever the quoting
  function of the host, two mappings with different keys give the same string.
\<close>

lemma attrs_string_not_injective:
  "attrs_string h [(''a'', v), (''b'', w)] =
   attrs_string h [(''a='' @ ensure_quoted h v @ '' b'', w)]"
  by (simp add: attrs_string_def)

text \<open>
  C9, as the code has it. When no key of the attribute mapping holds a space, a double
  quote or \<open>=\<close>, and every value is serialised as a quoted value with no double quote
  inside, reading the \<open>attrs\<close> string back gives the keys of the mapping, in their
  order, and so the same set of keys.
\<close>

theorem C9_attrs_string_round_trip:
  assumes keys: "\<forall>key \<in> fst ` set attrs.
                   CHR '' '' \<notin> set key \<and> dquote \<notin> set key \<and> CHR ''='' \<notin> set key"
    and vals: "\<forall>v \<in> snd ` set attrs. well_quoted (ensure_quoted h v)"
  shows "map fst (reparse_attrs (attrs_string h attrs)) = map fst attrs
       \<and> fst ` set (reparse_attrs (attrs_string h attrs)) = fst ` set attrs"
proof -
  let ?ps = "map (\<lambda>kv. fst kv @ ''='' @ ensure_quoted h (snd kv)) attrs"
  have "\<forall>p \<in> set ?ps. \<exists>k s. p = k @ ''='' @ dquote # s @ [dquote] \<and>
          dquote \<notin> set k \<and> CHR '' '' \<notin> set k \<and> dquote \<notin> set s"
  proof
    fix p assume "p \<in> set ?ps"
    then obtain kv where kv: "kv \<in> set attrs" and p: "p = fst kv @ ''='' @ ensure_quoted h (snd kv)"
      by auto
    from kv vals have "well_quoted (ensure_quoted h (snd kv))"
      by simp
    from well_quotedD [OF this] obtain s where
      s: "ensure_quoted h (snd kv) = dquote # s @ [dquote]" "dquote \<notin> set s"
      by blast
    from kv keys have "dquote \<notin> set (fst kv)" "CHR '' '' \<notin> set (fst kv)"
      by simp_all
    with p s show "\<exists>k s. p = k @ ''='' @ dquote # s @ [dquote] \<and>
          dquote \<notin> set k \<and> CHR '' '' \<notin> set k \<and> dquote \<notin> set s"
      by blast
  qed
  then have tokens: "attr_tokens False [] (attrs_string h attrs) = ?ps"
    unfolding attrs_string_def by (rule attr_tokens_join)
  have "map fst (reparse_attrs (attrs_string h attrs)) =
        map (\<lambda>kv. takeWhile (\<lambda>c. c \<noteq> CHR ''='') (fst kv @ ''='' @ ensure_quoted h (snd kv))) attrs"
    by (simp add: reparse_attrs_def tokens comp_def)
  also from keys have "\<dots> = map fst attrs"
    by (intro map_cong refl) (simp add: takeWhile_key)
  finally have m: "map fst (reparse_attrs (attrs_string h attrs)) = map fst attrs" .
  from arg_cong [OF m, of set]
  have "fst ` set (reparse_attrs (attrs_string h attrs)) = fst ` set attrs"
    by (simp only: set_map)
  with m show ?thesis
    by (rule conjI)
qed

theorem C9_attrs_string_round_trip_witness:
  "attrs_string sample_host
     [(''class'', VStr ''a b''), (''x-init'', VStr ''go''), (''disabled'', VBool True)] =
     ''class='' @ quoted ''a b'' @ '' x-init='' @ quoted ''go'' @ '' disabled='' @ quoted ''True''
   \<and> map fst (reparse_attrs (attrs_string sample_host
        [(''class'', VStr ''a b''), (''x-init'', VStr ''go''), (''disabled'', VBool True)])) =
     [''class'', ''x-init'', ''disabled'']"
proof -
  let ?a = "[(''class'', VStr ''a b''), (''x-init'', VStr ''go''), (''disabled'', VBool True)]"
  have k: "\<forall>key \<in> fst ` set ?a. CHR '' '' \<notin> set key \<and> dquote \<notin> set key \<and> CHR ''='' \<notin> set key"
    by (simp add: dquote_def)
  have v: "\<forall>v \<in> snd ` set ?a. well_quoted (ensure_quoted sample_host v)"
    by (simp add: well_quoted_def sample_defs)
  have s: "attrs_string sample_host ?a =
      ''class='' @ quoted ''a b'' @ '' x-init='' @ quoted ''go'' @ '' disabled='' @ quoted ''True''"
    by (simp add: attrs_string_def quoted_def sample_defs)
  from C9_attrs_string_round_trip [OF k v] s show ?thesis
    by simp
qed

theorem C9_quote_in_value_counterexample:
  "attrs_string sample_host [(''x'', VStr (''1'' @ [dquote] @ '' y='' @ [dquote] @ ''2''))] =
     attrs_string sample_host [(''x'', VStr ''1''), (''y'', VStr ''2'')]
   \<and> map fst (reparse_attrs
        (attrs_string sample_host [(''x'', VStr (''1'' @ [dquote] @ '' y='' @ [dquote] @ ''2''))])) =
     [''x'', ''y'']
   \<and> fst ` set (reparse_attrs
        (attrs_string sample_host [(''x'', VStr (''1'' @ [dquote] @ '' y='' @ [dquote] @ ''2''))])) \<noteq>
     fst ` set [(''x'', VStr (''1'' @ [dquote] @ '' y='' @ [dquote] @ ''2''))]"
  by (simp add: attrs_string_def reparse_attrs_def sample_defs)

end
